theory Spec2Isabelle
  imports Complex_Main "HOL-Library.Char_ord" "HOL-Library.List_Lexorder"
begin

section \<open>Expense Tracker: the ledger, its normalizer and its calculators\<close>

text \<open>
  The model follows \<^verbatim>\<open>src/main.py\<close>. Every tool of the source is an
  \<^verbatim>\<open>async def\<close> that runs to completion on one connection; the model is the sequential
  function each tool computes, on an explicit server state.

  Conventions of the embedding:
  \<^item> a Python \<^verbatim>\<open>str\<close> is a \<open>string\<close>. \<^verbatim>\<open>str.lower\<close>, \<^verbatim>\<open>str.strip\<close> and the
    digit classes of \<^verbatim>\<open>strptime\<close> are modelled on ASCII text, where they are exact;
    SQLite compares \<^verbatim>\<open>TEXT\<close> bytewise, which is the lexicographic order on \<open>string\<close>;
  \<^item> an amount (\<^verbatim>\<open>float\<close> in Python, \<^verbatim>\<open>REAL\<close> in SQLite) is a \<open>real\<close>: the arithmetic
    is exact, the rounding error of binary floating point is not modelled;
  \<^item> a raised exception is \<open>Inl\<close> of an \<open>error\<close>, a returned dictionary is \<open>Inr\<close> of a
    \<open>response\<close> (the \<^verbatim>\<open>message\<close> texts are left out);
  \<^item> the JSON vocabulary files are not part of the sources: the loaded documents are
    parameters (\<open>categories\<close> and \<open>sources\<close>), standing for what \<^verbatim>\<open>load_json\<close> returned.
\<close>

subsection \<open>Exceptions\<close>

datatype error = ValueError | KeyError | IndexError | ZeroDivisionError

subsection \<open>Strings\<close>

definition lower_char :: "char \<Rightarrow> char" where
  "lower_char c =
     (case map_of (zip ''ABCDEFGHIJKLMNOPQRSTUVWXYZ'' ''abcdefghijklmnopqrstuvwxyz'') c of
        Some d \<Rightarrow> d
      | None \<Rightarrow> c)"

text \<open>\<^verbatim>\<open>s.lower()\<close>\<close>

definition lower :: "string \<Rightarrow> string" where
  "lower s = map lower_char s"

text \<open>The ASCII characters for which \<^verbatim>\<open>str.isspace\<close> holds: TAB, LF, VT, FF, CR, FS, GS, RS, US, SPACE.\<close>

definition isspace :: "char \<Rightarrow> bool" where
  "isspace c =
     (c \<in> set [CHR 0x09, CHR 0x0A, CHR 0x0B, CHR 0x0C, CHR 0x0D,
                CHR 0x1C, CHR 0x1D, CHR 0x1E, CHR 0x1F, CHR 0x20])"

text \<open>\<^verbatim>\<open>s.strip()\<close>\<close>

definition strip :: "string \<Rightarrow> string" where
  "strip s = rev (dropWhile isspace (rev (dropWhile isspace s)))"

text \<open>\<^verbatim>\<open>(x or "")\<close> for an optional string.\<close>

definition or_empty :: "string option \<Rightarrow> string" where
  "or_empty x = (case x of None \<Rightarrow> [] | Some s \<Rightarrow> s)"

subsection \<open>The vocabulary and the normalizer\<close>

text \<open>
  \<^verbatim>\<open>categories.json\<close> is a JSON object from category to the list of its subcategories;
  \<^verbatim>\<open>saving_sources.json\<close> is a JSON list.
\<close>

type_synonym categories = "string \<rightharpoonup> string list"

text \<open>
  The fallback shared by both branches of \<^verbatim>\<open>validate_category\<close>:
  \<^verbatim>\<open>"other" if "other" in available_subcategories else available_subcategories[0]\<close>;
  indexing an empty list raises \<^verbatim>\<open>IndexError\<close>.
\<close>

definition fallback :: "string list \<Rightarrow> error + string" where
  "fallback available =
     (if ''other'' \<in> set available then Inr ''other''
      else (case available of [] \<Rightarrow> Inl IndexError | x # _ \<Rightarrow> Inr x))"

text \<open>
  \<^verbatim>\<open>validate_category(category, subcategory=None)\<close>. \<^verbatim>\<open>categories[normalized_category]\<close>
  raises \<^verbatim>\<open>KeyError\<close> when the key (by then possibly \<^verbatim>\<open>"misc"\<close>) is absent.
\<close>

definition validate_category ::
  "categories \<Rightarrow> string option \<Rightarrow> string option \<Rightarrow> error + (string \<times> string)" where
  "validate_category categories category subcategory =
     (let normalized_category = lower (strip (or_empty category));
          normalized_subcategory = lower (strip (or_empty subcategory));
          normalized_category =
            (if categories normalized_category = None then ''misc'' else normalized_category)
      in case categories normalized_category of
           None \<Rightarrow> Inl KeyError
         | Some available_subcategories \<Rightarrow>
             (if normalized_subcategory = [] then
                (case fallback available_subcategories of
                   Inl e \<Rightarrow> Inl e
                 | Inr s \<Rightarrow> Inr (normalized_category, s))
              else if normalized_subcategory \<notin> set available_subcategories then
                (case fallback available_subcategories of
                   Inl e \<Rightarrow> Inl e
                 | Inr s \<Rightarrow> Inr (normalized_category, s))
              else Inr (normalized_category, normalized_subcategory)))"

text \<open>\<^verbatim>\<open>validate_saving_source(source)\<close>\<close>

definition validate_saving_source :: "string list \<Rightarrow> string option \<Rightarrow> error + string" where
  "validate_saving_source sources source =
     (let normalized_source = lower (strip (or_empty source))
      in if normalized_source = [] then fallback sources
         else if normalized_source \<notin> set sources then fallback sources
         else Inr normalized_source)"

text \<open>
  The condition on the loaded vocabulary under which the normalizer cannot raise: the
  sentinel category is present and no category has an empty subcategory list.
\<close>

definition vocabulary_ok :: "categories \<Rightarrow> bool" where
  "vocabulary_ok categories =
     (categories ''misc'' \<noteq> None \<and> (\<forall>k subs. categories k = Some subs \<longrightarrow> subs \<noteq> []))"

subsection \<open>The ledger of one tenant\<close>

text \<open>
  One record per table of \<^verbatim>\<open>init_db\<close>; a table is the list of its rows in insertion
  order. Every table is \<^verbatim>\<open>AUTOINCREMENT\<close>: SQLite keeps the largest rowid ever given
  (the table's entry in \<^verbatim>\<open>sqlite_sequence\<close>), here the \<open>_seq\<close> field next to each table.
\<close>

record expense =
  e_id :: int
  e_date :: string
  e_amount :: real
  e_category :: string
  e_subcategory :: string
  e_note :: string

record saving =
  s_id :: int
  s_date :: string
  s_amount :: real
  s_source :: string
  s_note :: string

record saving_goal =
  g_id :: int
  g_name :: string
  g_target_amount :: real
  g_start_date :: string
  g_end_date :: "string option"
  g_note :: string

record budget =
  b_id :: int
  b_category :: string
  b_monthly_limit :: real

record db =
  expenses :: "expense list"
  expenses_seq :: int
  savings :: "saving list"
  savings_seq :: int
  saving_goals :: "saving_goal list"
  saving_goals_seq :: int
  budgets :: "budget list"
  budgets_seq :: int

definition empty_db :: db where
  "empty_db =
     \<lparr>expenses = [], expenses_seq = 0, savings = [], savings_seq = 0,
      saving_goals = [], saving_goals_seq = 0, budgets = [], budgets_seq = 0\<rparr>"

text \<open>
  \<^verbatim>\<open>cursor.lastrowid\<close> of an insert into an \<^verbatim>\<open>AUTOINCREMENT\<close> table: one more than the
  largest rowid the table has ever held.
\<close>

definition next_rowid :: "int \<Rightarrow> int list \<Rightarrow> int" where
  "next_rowid seq ids = max seq (fold max ids 0) + 1"

subsection \<open>The server: the current-user pointer and the tenants' databases\<close>

text \<open>
  \<^verbatim>\<open>CURRENT_USER_ID\<close> is the module's global; \<open>DATA_DIR\<close> maps a user id to the
  database file \<^verbatim>\<open>DATA_DIR/<user_id>/expenses.db\<close>, absent until \<^verbatim>\<open>init_db\<close> creates it.
\<close>

record server =
  CURRENT_USER_ID :: string
  DATA_DIR :: "string \<rightharpoonup> db"

definition initial_server :: server where
  "initial_server = \<lparr>CURRENT_USER_ID = ''default_user'', DATA_DIR = Map.empty\<rparr>"

text \<open>\<^verbatim>\<open>resolve_user_id(user_id)\<close>: \<^verbatim>\<open>not user_id\<close> holds for \<^verbatim>\<open>None\<close> and for \<^verbatim>\<open>""\<close>.\<close>

definition resolve_user_id :: "server \<Rightarrow> string option \<Rightarrow> string" where
  "resolve_user_id srv user_id =
     (case user_id of
        None \<Rightarrow> CURRENT_USER_ID srv
      | Some u \<Rightarrow> if u = [] then CURRENT_USER_ID srv else u)"

text \<open>\<^verbatim>\<open>init_db(user_id)\<close>: four times \<^verbatim>\<open>CREATE TABLE IF NOT EXISTS\<close>.\<close>

definition init_db :: "server \<Rightarrow> string \<Rightarrow> server" where
  "init_db srv user_id =
     (case DATA_DIR srv user_id of
        None \<Rightarrow> srv\<lparr>DATA_DIR := (DATA_DIR srv)(user_id \<mapsto> empty_db)\<rparr>
      | Some _ \<Rightarrow> srv)"

text \<open>
  \<^verbatim>\<open>get_db_connection(user_id)\<close>: \<open>connect\<close> reads the tenant's database, \<open>commit\<close> is the
  \<^verbatim>\<open>conn.commit()\<close> at the end of the \<^verbatim>\<open>async with\<close> block.
\<close>

definition connect :: "server \<Rightarrow> string \<Rightarrow> db" where
  "connect srv user_id = (case DATA_DIR srv user_id of None \<Rightarrow> empty_db | Some d \<Rightarrow> d)"

definition commit :: "server \<Rightarrow> string \<Rightarrow> db \<Rightarrow> server" where
  "commit srv user_id conn = srv\<lparr>DATA_DIR := (DATA_DIR srv)(user_id \<mapsto> conn)\<rparr>"

subsection \<open>What the tools return\<close>

datatype budget_state = over_budget | under_budget

record budget_report =
  r_category :: string
  r_year :: int
  r_month :: int
  r_monthly_limit :: real
  r_total_expenses :: real
  r_remaining_budget :: real
  r_budget_status :: budget_state
  r_usage_percentage :: real

datatype pace = missed_goal | on_track | behind

record insights =
  i_goal :: string
  i_target_amount :: real
  i_total_saved :: real
  i_months_total :: int
  i_months_elapsed :: int
  i_months_remaining :: int
  i_required_monthly_saving :: real
  i_current_monthly_average :: real
  i_pace_status :: pace

record progress =
  p_goal_id :: int
  p_name :: string
  p_target_amount :: real
  p_total_saved :: real
  p_remaining :: real
  p_progress_percentage :: real

text \<open>One constructor per shape of returned dictionary; the first word is its \<^verbatim>\<open>status\<close>.\<close>

datatype response =
    Ok_expense_added int string string
  | Ok_saving_added int
  | Ok_goal_added int
  | Ok_updated int
  | Ok_budget_set string real
  | Ok_budget_status budget_report
  | Ok_deleted nat
  | Ok_goal_deleted int
  | Ok_progress progress
  | Ok_insights insights
  | Ok_user string
  | Not_found
  | No_changes int
  | No_budget
  | No_deadline

text \<open>
  \<^verbatim>\<open>round(x, 2)\<close>: Python rounds to the nearest multiple of 1/100, a tie to the even one.
\<close>

definition round2 :: "real \<Rightarrow> real" where
  "round2 x =
     (let y = x * 100; f = \<lfloor>y\<rfloor>; r = y - of_int f
      in of_int (if r < 1 / 2 then f else if 1 / 2 < r then f + 1
                 else if even f then f else f + 1) / 100)"

subsection \<open>Dates\<close>

text \<open>The character of a decimal digit \<open>n < 10\<close>, and the digit a character stands for.\<close>

definition digit_char :: "nat \<Rightarrow> char" where
  "digit_char n = ''0123456789'' ! n"

definition digit_val :: "char \<Rightarrow> int option" where
  "digit_val c = map_of (zip ''0123456789'' [0, 1, 2, 3, 4, 5, 6, 7, 8, 9]) c"

text \<open>The decimal digits of a natural number, most significant first.\<close>

fun digits :: "nat \<Rightarrow> string" where
  "digits n = (if n < 10 then [digit_char n] else digits (n div 10) @ [digit_char (n mod 10)])"

text \<open>\<^verbatim>\<open>f"{i}"\<close> for an \<^verbatim>\<open>int\<close>.\<close>

definition str_int :: "int \<Rightarrow> string" where
  "str_int i = (if i < 0 then CHR ''-'' # digits (nat (- i)) else digits (nat i))"

text \<open>\<^verbatim>\<open>f"{i:02d}"\<close>: zero-padded to width two, the sign counted in the width.\<close>

definition format_02d :: "int \<Rightarrow> string" where
  "format_02d i = (let s = str_int i in if length s < 2 then CHR ''0'' # s else s)"

record datetime =
  dt_year :: int
  dt_month :: int
  dt_day :: int

text \<open>
  \<^verbatim>\<open>datetime.strptime(s, "%Y-%m-%d")\<close>. The library matches the regular expression
  \<^verbatim>\<open>(\d\d\d\d)-(1[0-2]|0[1-9]|[1-9])-(3[0-1]|[1-2]\d|0[1-9]|[1-9]| [1-9])\<close> at the start of
  \<^verbatim>\<open>s\<close>, raises \<^verbatim>\<open>ValueError\<close> when it does not match or when text remains after
  the match, and then builds the date, which raises \<^verbatim>\<open>ValueError\<close> for year 0 and for
  a day the month does not have. Each group below tries the alternatives in the order of
  the expression. (A month that matched \<^verbatim>\<open>1[0-2]\<close> is followed by a digit when it is
  read as \<^verbatim>\<open>[1-9]\<close> instead, so backtracking into the month group never finds a match.)
\<close>

fun parse_Y :: "string \<Rightarrow> (int \<times> string) option" where
  "parse_Y (a # b # c # d # rest) =
     (case (digit_val a, digit_val b, digit_val c, digit_val d) of
        (Some a, Some b, Some c, Some d) \<Rightarrow> Some (1000 * a + 100 * b + 10 * c + d, rest)
      | _ \<Rightarrow> None)"
| "parse_Y _ = None"

fun parse_m :: "string \<Rightarrow> (int \<times> string) option" where
  "parse_m (a # b # rest) =
     (case (digit_val a, digit_val b) of
        (Some x, Some y) \<Rightarrow>
          if x = 1 \<and> y \<le> 2 then Some (10 + y, rest)
          else if x = 0 \<and> 1 \<le> y then Some (y, rest)
          else if 1 \<le> x then Some (x, b # rest)
          else None
      | (Some x, None) \<Rightarrow> if 1 \<le> x then Some (x, b # rest) else None
      | _ \<Rightarrow> None)"
| "parse_m [a] = (case digit_val a of Some x \<Rightarrow> if 1 \<le> x then Some (x, []) else None | None \<Rightarrow> None)"
| "parse_m [] = None"

fun parse_d :: "string \<Rightarrow> (int \<times> string) option" where
  "parse_d (a # b # rest) =
     (case (digit_val a, digit_val b) of
        (Some x, Some y) \<Rightarrow>
          if x = 3 \<and> y \<le> 1 then Some (30 + y, rest)
          else if 1 \<le> x \<and> x \<le> 2 then Some (10 * x + y, rest)
          else if x = 0 \<and> 1 \<le> y then Some (y, rest)
          else if 1 \<le> x then Some (x, b # rest)
          else None
      | (Some x, None) \<Rightarrow> if 1 \<le> x then Some (x, b # rest) else None
      | (None, Some y) \<Rightarrow> if a = CHR '' '' \<and> 1 \<le> y then Some (y, rest) else None
      | _ \<Rightarrow> None)"
| "parse_d [a] = (case digit_val a of Some x \<Rightarrow> if 1 \<le> x then Some (x, []) else None | None \<Rightarrow> None)"
| "parse_d [] = None"

definition is_leap :: "int \<Rightarrow> bool" where
  "is_leap y = (y mod 4 = 0 \<and> (y mod 100 \<noteq> 0 \<or> y mod 400 = 0))"

definition days_in_month :: "int \<Rightarrow> int \<Rightarrow> int" where
  "days_in_month y m =
     (if m = 2 then (if is_leap y then 29 else 28)
      else if m = 4 \<or> m = 6 \<or> m = 9 \<or> m = 11 then 30 else 31)"

definition strptime :: "string \<Rightarrow> error + datetime" where
  "strptime s =
     (case parse_Y s of
        None \<Rightarrow> Inl ValueError
      | Some (y, s1) \<Rightarrow>
          (case s1 of
             [] \<Rightarrow> Inl ValueError
           | c1 # s2 \<Rightarrow>
               if c1 \<noteq> CHR ''-'' then Inl ValueError
               else (case parse_m s2 of
                  None \<Rightarrow> Inl ValueError
                | Some (m, s3) \<Rightarrow>
                    (case s3 of
                       [] \<Rightarrow> Inl ValueError
                     | c2 # s4 \<Rightarrow>
                         if c2 \<noteq> CHR ''-'' then Inl ValueError
                         else (case parse_d s4 of
                            None \<Rightarrow> Inl ValueError
                          | Some (d, s5) \<Rightarrow>
                              if s5 \<noteq> [] then Inl ValueError
                              else if y < 1 \<or> days_in_month y m < d then Inl ValueError
                              else Inr \<lparr>dt_year = y, dt_month = m, dt_day = d\<rparr>)))))"

text \<open>\<^verbatim>\<open>months_between(start_date, end_date)\<close>\<close>

definition months_between :: "string \<Rightarrow> string \<Rightarrow> error + int" where
  "months_between start_date end_date =
     (case strptime start_date of
        Inl e \<Rightarrow> Inl e
      | Inr start \<Rightarrow>
          (case strptime end_date of
             Inl e \<Rightarrow> Inl e
           | Inr end' \<Rightarrow> Inr ((dt_year end' - dt_year start) * 12 + (dt_month end' - dt_month start))))"

subsection \<open>Expense tools\<close>

text \<open>
  Each tool takes the server state first and returns its outcome with the state it leaves.
  \<^verbatim>\<open>add_expense(date, amount, category, subcategory="", note="", user_id=None)\<close>
\<close>

definition add_expense ::
  "categories \<Rightarrow> server \<Rightarrow> string \<Rightarrow> real \<Rightarrow> string \<Rightarrow> string \<Rightarrow> string \<Rightarrow> string option
     \<Rightarrow> (error + response) \<times> server" where
  "add_expense categories srv date amount category subcategory note user_id =
     (let uid = resolve_user_id srv user_id
      in if amount \<le> 0 then (Inl ValueError, srv)
         else (case validate_category categories (Some category) (Some subcategory) of
            Inl e \<Rightarrow> (Inl e, srv)
          | Inr (category', subcategory') \<Rightarrow>
              (let srv1 = init_db srv uid;
                   conn = connect srv1 uid;
                   expense_id = next_rowid (expenses_seq conn) (map e_id (expenses conn));
                   row = \<lparr>e_id = expense_id, e_date = date, e_amount = amount,
                          e_category = category', e_subcategory = subcategory', e_note = note\<rparr>
               in (Inr (Ok_expense_added expense_id category' subcategory'),
                   commit srv1 uid
                     (conn\<lparr>expenses := expenses conn @ [row], expenses_seq := expense_id\<rparr>)))))"

text \<open>
  \<^verbatim>\<open>list_expenses(user_id=None)\<close>: \<^verbatim>\<open>ORDER BY date DESC\<close>. SQL leaves the order of rows
  with equal dates open; the model lists them latest row first.
\<close>

definition list_expenses :: "server \<Rightarrow> string option \<Rightarrow> expense list \<times> server" where
  "list_expenses srv user_id =
     (let uid = resolve_user_id srv user_id;
          srv1 = init_db srv uid;
          conn = connect srv1 uid
      in (rev (sort_key e_date (expenses conn)), srv1))"

text \<open>
  \<^verbatim>\<open>update_expense\<close> collects \<^verbatim>\<open>SET\<close> clauses in the lists \<^verbatim>\<open>updates\<close> and \<^verbatim>\<open>values\<close>; here
  the collected clauses are a record with one optional value per column.
\<close>

record expense_update =
  u_date :: "string option"
  u_amount :: "real option"
  u_category :: "string option"
  u_subcategory :: "string option"
  u_note :: "string option"

definition apply_update :: "expense_update \<Rightarrow> expense \<Rightarrow> expense" where
  "apply_update u row =
     row\<lparr>e_date := (case u_date u of None \<Rightarrow> e_date row | Some v \<Rightarrow> v),
         e_amount := (case u_amount u of None \<Rightarrow> e_amount row | Some v \<Rightarrow> v),
         e_category := (case u_category u of None \<Rightarrow> e_category row | Some v \<Rightarrow> v),
         e_subcategory := (case u_subcategory u of None \<Rightarrow> e_subcategory row | Some v \<Rightarrow> v),
         e_note := (case u_note u of None \<Rightarrow> e_note row | Some v \<Rightarrow> v)\<rparr>"

text \<open>
  The end of \<^verbatim>\<open>update_expense\<close>, from \<^verbatim>\<open>if not updates\<close> on: the \<^verbatim>\<open>UPDATE ... WHERE id = ?\<close>
  and the test of \<^verbatim>\<open>cursor.rowcount\<close>.
\<close>

definition execute_update ::
  "server \<Rightarrow> string \<Rightarrow> int \<Rightarrow> expense_update \<Rightarrow> (error + response) \<times> server" where
  "execute_update srv uid expense_id u =
     (if u_date u = None \<and> u_amount u = None \<and> u_category u = None
         \<and> u_subcategory u = None \<and> u_note u = None
      then (Inr (No_changes expense_id), srv)
      else (let conn = connect srv uid
            in if \<not> (\<exists>r \<in> set (expenses conn). e_id r = expense_id)
               then (Inr Not_found, srv)
               else (Inr (Ok_updated expense_id),
                     commit srv uid
                       (conn\<lparr>expenses :=
                          map (\<lambda>r. if e_id r = expense_id then apply_update u r else r)
                            (expenses conn)\<rparr>))))"

text \<open>
  \<^verbatim>\<open>update_expense(expense_id, date=None, amount=None, category=None, subcategory=None,
  note=None, user_id=None)\<close>. With a category, the normalizer gets the caller's
  \<^verbatim>\<open>subcategory\<close> argument (\<^verbatim>\<open>None\<close> when there is none), and both columns are set; with a
  subcategory only, the row's stored category is read first.
\<close>

definition update_expense ::
  "categories \<Rightarrow> server \<Rightarrow> int \<Rightarrow> string option \<Rightarrow> real option \<Rightarrow> string option
     \<Rightarrow> string option \<Rightarrow> string option \<Rightarrow> string option \<Rightarrow> (error + response) \<times> server" where
  "update_expense categories srv expense_id date amount category subcategory note user_id =
     (let uid = resolve_user_id srv user_id;
          srv1 = init_db srv uid;
          u = \<lparr>u_date = date, u_amount = amount, u_category = None, u_subcategory = None,
               u_note = note\<rparr>
      in if (case amount of None \<Rightarrow> False | Some a \<Rightarrow> a \<le> 0) then (Inl ValueError, srv1)
         else (case category of
            Some c \<Rightarrow>
              (case validate_category categories (Some c) subcategory of
                 Inl e \<Rightarrow> (Inl e, srv1)
               | Inr (category', normalized_subcategory) \<Rightarrow>
                   execute_update srv1 uid expense_id
                     (u\<lparr>u_category := Some category',
                        u_subcategory := Some normalized_subcategory\<rparr>))
          | None \<Rightarrow>
              (case subcategory of
                 Some sub \<Rightarrow>
                   (case find (\<lambda>r. e_id r = expense_id) (expenses (connect srv1 uid)) of
                      None \<Rightarrow> (Inr Not_found, srv1)
                    | Some row \<Rightarrow>
                        (case validate_category categories (Some (e_category row)) (Some sub) of
                           Inl e \<Rightarrow> (Inl e, srv1)
                         | Inr (current_category, normalized_subcategory) \<Rightarrow>
                             execute_update srv1 uid expense_id
                               (u\<lparr>u_subcategory := Some normalized_subcategory\<rparr>)))
               | None \<Rightarrow> execute_update srv1 uid expense_id u)))"




subsection \<open>Saving tools\<close>

text \<open>\<^verbatim>\<open>add_saving(date, amount, source="", note="", user_id=None)\<close>\<close>

definition add_saving ::
  "string list \<Rightarrow> server \<Rightarrow> string \<Rightarrow> real \<Rightarrow> string \<Rightarrow> string \<Rightarrow> string option
     \<Rightarrow> (error + response) \<times> server" where
  "add_saving sources srv date amount source note user_id =
     (let uid = resolve_user_id srv user_id
      in if amount \<le> 0 then (Inl ValueError, srv)
         else (case validate_saving_source sources (Some source) of
            Inl e \<Rightarrow> (Inl e, srv)
          | Inr source' \<Rightarrow>
              (let srv1 = init_db srv uid;
                   conn = connect srv1 uid;
                   saving_id = next_rowid (savings_seq conn) (map s_id (savings conn));
                   row = \<lparr>s_id = saving_id, s_date = date, s_amount = amount,
                          s_source = source', s_note = note\<rparr>
               in (Inr (Ok_saving_added saving_id),
                   commit srv1 uid
                     (conn\<lparr>savings := savings conn @ [row], savings_seq := saving_id\<rparr>)))))"

text \<open>\<^verbatim>\<open>add_saving_goal(name, target_amount, start_date, end_date=None, note="", user_id=None)\<close>\<close>

definition add_saving_goal ::
  "server \<Rightarrow> string \<Rightarrow> real \<Rightarrow> string \<Rightarrow> string option \<Rightarrow> string \<Rightarrow> string option
     \<Rightarrow> (error + response) \<times> server" where
  "add_saving_goal srv name target_amount start_date end_date note user_id =
     (let uid = resolve_user_id srv user_id
      in if target_amount \<le> 0 then (Inl ValueError, srv)
         else (let srv1 = init_db srv uid;
                   conn = connect srv1 uid;
                   goal_id = next_rowid (saving_goals_seq conn) (map g_id (saving_goals conn));
                   row = \<lparr>g_id = goal_id, g_name = name, g_target_amount = target_amount,
                          g_start_date = start_date, g_end_date = end_date, g_note = note\<rparr>
               in (Inr (Ok_goal_added goal_id),
                   commit srv1 uid
                     (conn\<lparr>saving_goals := saving_goals conn @ [row],
                           saving_goals_seq := goal_id\<rparr>))))"

text \<open>
  \<^verbatim>\<open>get_saving_goal_insights(goal_id, user_id=None)\<close>. \<open>today\<close> is what
  \<^verbatim>\<open>datetime.today().strftime("%Y-%m-%d")\<close> returned. \<^verbatim>\<open>not goal_dict['end_date']\<close> holds
  for \<^verbatim>\<open>NULL\<close> and for the empty string. The pace is decided on the unrounded figures.
\<close>

definition get_saving_goal_insights ::
  "server \<Rightarrow> string \<Rightarrow> int \<Rightarrow> string option \<Rightarrow> (error + response) \<times> server" where
  "get_saving_goal_insights srv today goal_id user_id =
     (let uid = resolve_user_id srv user_id;
          srv1 = init_db srv uid;
          conn = connect srv1 uid
      in case find (\<lambda>g. g_id g = goal_id) (saving_goals conn) of
           None \<Rightarrow> (Inr Not_found, srv1)
         | Some goal \<Rightarrow>
             (case g_end_date goal of
                None \<Rightarrow> (Inr No_deadline, srv1)
              | Some end_date \<Rightarrow>
                  if end_date = [] then (Inr No_deadline, srv1)
                  else (let total_saved =
                              sum_list (map s_amount
                                (filter (\<lambda>s. g_start_date goal \<le> s_date s \<and> s_date s \<le> today)
                                   (savings conn)))
                        in case months_between (g_start_date goal) end_date of
                             Inl e \<Rightarrow> (Inl e, srv1)
                           | Inr between_end \<Rightarrow>
                               (case months_between (g_start_date goal) today of
                                  Inl e \<Rightarrow> (Inl e, srv1)
                                | Inr between_today \<Rightarrow>
                                    (let months_total = max between_end 1;
                                         months_elapsed = max between_today 0;
                                         months_remaining = max (months_total - months_elapsed) 0;
                                         remaining_amount =
                                           max (g_target_amount goal - total_saved) 0;
                                         required_monthly =
                                           (if months_remaining > 0
                                            then remaining_amount / of_int months_remaining
                                            else 0);
                                         current_monthly_avg =
                                           (if months_elapsed > 0
                                            then total_saved / of_int months_elapsed
                                            else total_saved);
                                         status =
                                           (if months_remaining = 0 \<and> remaining_amount > 0
                                            then missed_goal
                                            else if current_monthly_avg \<ge> required_monthly
                                            then on_track
                                            else behind)
                                     in (Inr (Ok_insights
                                           \<lparr>i_goal = g_name goal,
                                            i_target_amount = g_target_amount goal,
                                            i_total_saved = total_saved,
                                            i_months_total = months_total,
                                            i_months_elapsed = months_elapsed,
                                            i_months_remaining = months_remaining,
                                            i_required_monthly_saving = round2 required_monthly,
                                            i_current_monthly_average = round2 current_monthly_avg,
                                            i_pace_status = status\<rparr>),
                                         srv1))))))"







subsection \<open>Budget tools\<close>

text \<open>
  \<^verbatim>\<open>INSERT INTO budgets ... ON CONFLICT(category) DO UPDATE SET monthly_limit=excluded.monthly_limit\<close>:
  the row of that category gets the new limit, or a new row is appended. No tool reads a
  budget's \<^verbatim>\<open>id\<close>.
\<close>

definition upsert_budget :: "db \<Rightarrow> string \<Rightarrow> real \<Rightarrow> db" where
  "upsert_budget conn category monthly_limit =
     (if \<exists>b \<in> set (budgets conn). b_category b = category
      then conn\<lparr>budgets :=
             map (\<lambda>b. if b_category b = category then b\<lparr>b_monthly_limit := monthly_limit\<rparr> else b)
               (budgets conn)\<rparr>
      else (let budget_id = next_rowid (budgets_seq conn) (map b_id (budgets conn))
            in conn\<lparr>budgets := budgets conn @
                       [\<lparr>b_id = budget_id, b_category = category,
                         b_monthly_limit = monthly_limit\<rparr>],
                     budgets_seq := budget_id\<rparr>))"

text \<open>\<^verbatim>\<open>set_budget(category, monthly_limit, user_id=None)\<close>\<close>

definition set_budget ::
  "categories \<Rightarrow> server \<Rightarrow> string \<Rightarrow> real \<Rightarrow> string option \<Rightarrow> (error + response) \<times> server" where
  "set_budget categories srv category monthly_limit user_id =
     (let uid = resolve_user_id srv user_id
      in if monthly_limit \<le> 0 then (Inl ValueError, srv)
         else (case validate_category categories (Some category) None of
            Inl e \<Rightarrow> (Inl e, srv)
          | Inr (category', _) \<Rightarrow>
              (let srv1 = init_db srv uid;
                   conn = connect srv1 uid
               in (Inr (Ok_budget_set category' monthly_limit),
                   commit srv1 uid (upsert_budget conn category' monthly_limit)))))"

text \<open>
  \<^verbatim>\<open>check_budget_status(category, year, month, user_id=None)\<close>. Both queries use
  \<^verbatim>\<open>category.lower()\<close>; the dates are compared as text. The division raises
  \<^verbatim>\<open>ZeroDivisionError\<close> on a stored limit of zero.
\<close>

definition check_budget_status ::
  "server \<Rightarrow> string \<Rightarrow> int \<Rightarrow> int \<Rightarrow> string option \<Rightarrow> (error + response) \<times> server" where
  "check_budget_status srv category year month user_id =
     (let uid = resolve_user_id srv user_id;
          srv1 = init_db srv uid;
          start_date = str_int year @ ''-'' @ format_02d month @ ''-01'';
          end_date =
            (if month = 12 then str_int (year + 1) @ ''-01-01''
             else str_int year @ ''-'' @ format_02d (month + 1) @ ''-01'');
          conn = connect srv1 uid
      in case find (\<lambda>b. b_category b = lower category) (budgets conn) of
           None \<Rightarrow> (Inr No_budget, srv1)
         | Some budget \<Rightarrow>
             (let total_expenses =
                    sum_list (map e_amount
                      (filter (\<lambda>e. e_category e = lower category
                                   \<and> start_date \<le> e_date e \<and> e_date e < end_date)
                         (expenses conn)));
                  remaining = b_monthly_limit budget - total_expenses;
                  status =
                    (if total_expenses > b_monthly_limit budget then over_budget
                     else under_budget)
              in if b_monthly_limit budget = 0 then (Inl ZeroDivisionError, srv1)
                 else (Inr (Ok_budget_status
                         \<lparr>r_category = lower category, r_year = year, r_month = month,
                          r_monthly_limit = b_monthly_limit budget,
                          r_total_expenses = total_expenses,
                          r_remaining_budget = remaining,
                          r_budget_status = status,
                          r_usage_percentage =
                            round2 (total_expenses / b_monthly_limit budget * 100)\<rparr>),
                       srv1)))"

text \<open>\<^verbatim>\<open>delete_budget(category, user_id=None)\<close>\<close>

definition delete_budget ::
  "server \<Rightarrow> string \<Rightarrow> string option \<Rightarrow> (error + response) \<times> server" where
  "delete_budget srv category user_id =
     (let uid = resolve_user_id srv user_id;
          srv1 = init_db srv uid;
          conn = connect srv1 uid;
          rowcount = length (filter (\<lambda>b. b_category b = lower category) (budgets conn))
      in if rowcount = 0 then (Inr Not_found, srv1)
         else (Inr (Ok_deleted rowcount),
               commit srv1 uid
                 (conn\<lparr>budgets :=
                    filter (\<lambda>b. b_category b \<noteq> lower category) (budgets conn)\<rparr>)))"



subsection \<open>User management\<close>



definition get_current_user :: "server \<Rightarrow> (error + response) \<times> server" where
  "get_current_user srv = (Inr (Ok_user (CURRENT_USER_ID srv)), srv)"

subsection \<open>Calendar dates as text\<close>


text \<open>The \<open>k\<close> low decimal digits of \<open>n\<close>, most significant first.\<close>

fun pad_digits :: "nat \<Rightarrow> nat \<Rightarrow> string" where
  "pad_digits 0 n = []"
| "pad_digits (Suc k) n = pad_digits k (n div 10) @ [digit_char (n mod 10)]"

subsection \<open>Tenant isolation\<close>

text \<open>
  \<open>untouched srv srv' uid\<close>: going from \<open>srv\<close> to \<open>srv'\<close> left the current-user pointer
  and the database of every tenant other than \<open>uid\<close> as they were.
\<close>

definition untouched :: "server \<Rightarrow> server \<Rightarrow> string \<Rightarrow> bool" where
  "untouched srv srv' uid =
     (CURRENT_USER_ID srv' = CURRENT_USER_ID srv
      \<and> (\<forall>u. u \<noteq> uid \<longrightarrow> DATA_DIR srv' u = DATA_DIR srv u))"

subsection \<open>Sequences of calls\<close>

text \<open>A run of \<open>set_budget\<close> calls, each on the state the previous one left.\<close>

fun set_budgets :: "categories \<Rightarrow> server \<Rightarrow> (string \<times> real \<times> string option) list \<Rightarrow> server" where
  "set_budgets categories srv [] = srv"
| "set_budgets categories srv ((category, monthly_limit, user_id) # calls) =
     set_budgets categories (snd (set_budget categories srv category monthly_limit user_id)) calls"

subsection \<open>Sample data\<close>

text \<open>A small vocabulary in the shape of the two JSON documents, for concrete runs.\<close>

definition example_categories :: categories where
  "example_categories =
     map_of [(''food'', [''groceries'', ''dining_out'', ''other'']),
             (''transport'', [''fuel'', ''repairs_service'', ''other'']),
             (''housing'', [''rent'', ''repairs_service'', ''other'']),
             (''misc'', [''uncategorized'', ''other''])]"

definition example_sources :: "string list" where
  "example_sources = [''salary'', ''freelance'', ''other'']"

text \<open>A ledger with one expense, written by \<open>add_expense\<close> for the default user.\<close>

definition example_ledger :: server where
  "example_ledger =
     snd (add_expense example_categories initial_server ''2024-03-01'' 40 ''transport''
            ''repairs_service'' ''tyres'' None)"




section \<open>Properties\<close>

subsection \<open>Connections\<close>

lemmas run_defs =
  add_expense_def add_saving_def add_saving_goal_def list_expenses_def update_expense_def
  execute_update_def apply_update_def set_budget_def upsert_budget_def check_budget_status_def
  delete_budget_def get_saving_goal_insights_def months_between_def strptime_def
  validate_category_def validate_saving_source_def fallback_def or_empty_def strip_def
  lower_def lower_char_def isspace_def resolve_user_id_def init_db_def connect_def commit_def
  initial_server_def empty_db_def next_rowid_def example_categories_def example_sources_def
  Let_def

lemma connect_commit [simp]: "connect (commit srv u d) u = d"
  by (simp add: connect_def commit_def)

lemma connect_commit_other [simp]: "u \<noteq> uid \<Longrightarrow> connect (commit srv uid d) u = connect srv u"
  by (simp add: connect_def commit_def)

lemma connect_init_db [simp]: "connect (init_db srv uid) u = connect srv u"
  by (simp add: connect_def init_db_def split: option.splits)

lemma init_db_commit [simp]: "init_db (commit srv u d) u = commit srv u d"
  by (simp add: init_db_def commit_def)

lemma init_db_idem [simp]: "init_db (init_db srv u) u = init_db srv u"
  by (simp add: init_db_def split: option.splits)

lemma CURRENT_USER_ID_commit [simp]: "CURRENT_USER_ID (commit srv uid d) = CURRENT_USER_ID srv"
  by (simp add: commit_def)

lemma CURRENT_USER_ID_init_db [simp]: "CURRENT_USER_ID (init_db srv uid) = CURRENT_USER_ID srv"
  by (simp add: init_db_def split: option.splits)

lemma resolve_user_id_pointer:
  "CURRENT_USER_ID srv' = CURRENT_USER_ID srv \<Longrightarrow>
     resolve_user_id srv' user_id = resolve_user_id srv user_id"
  by (simp add: resolve_user_id_def split: option.splits)

lemma untouched_refl [simp]: "untouched srv srv uid"
  by (simp add: untouched_def)

lemma untouched_init_db [simp]: "untouched srv (init_db srv uid) uid"
  by (simp add: untouched_def init_db_def split: option.splits)

lemma untouched_commit [simp]: "untouched srv (commit (init_db srv uid) uid d) uid"
  by (simp add: untouched_def init_db_def commit_def split: option.splits)








lemma set_budget_untouched:
  "untouched srv (snd (set_budget cs srv c l user_id)) (resolve_user_id srv user_id)"
  by (simp add: set_budget_def Let_def split: sum.splits prod.splits)
















subsection \<open>The normalizer\<close>

lemma fallback_member:
  "available \<noteq> [] \<Longrightarrow> \<exists>s. fallback available = Inr s \<and> s \<in> set available"
  by (cases available) (auto simp: fallback_def)

text \<open>
  C1, as the code has it. On a vocabulary that holds the category \<^verbatim>\<open>misc\<close> and gives no
  category an empty list of subcategories, \<open>validate_category\<close> returns, for every pair of
  raw arguments (absent, empty or unknown ones included), a category that is a key of the
  vocabulary and a subcategory listed under that key; it raises nothing.
\<close>

theorem validate_category_valid:
  assumes "vocabulary_ok categories"
  shows "\<exists>c s subs. validate_category categories category subcategory = Inr (c, s)
           \<and> categories c = Some subs \<and> s \<in> set subs"
proof -
  define n where "n = lower (strip (or_empty category))"
  define c where "c = (if categories n = None then ''misc'' else n)"
  from assms obtain subs where subs: "categories c = Some subs"
    unfolding vocabulary_ok_def c_def by (cases "categories n") auto
  with assms have ne: "subs \<noteq> []"
    unfolding vocabulary_ok_def by blast
  from fallback_member [OF ne] obtain d where d: "fallback subs = Inr d" "d \<in> set subs"
    by blast
  show ?thesis
    using subs d
    by (auto simp: validate_category_def Let_def n_def [symmetric] c_def [symmetric])
qed

theorem validate_category_valid_witness:
  "vocabulary_ok example_categories
   \<and> (\<exists>c s subs.
         validate_category example_categories (Some '' Zzz '') (Some ''Fuel'') = Inr (c, s)
         \<and> example_categories c = Some subs \<and> s \<in> set subs)"
  using validate_category_valid [of example_categories "Some '' Zzz ''" "Some ''Fuel''"]
  by (auto simp: vocabulary_ok_def example_categories_def split: if_splits)

text \<open>
  A vocabulary that loads but has no \<^verbatim>\<open>misc\<close> entry makes an unknown category raise
  \<^verbatim>\<open>KeyError\<close>; an empty subcategory list makes the fallback raise \<^verbatim>\<open>IndexError\<close>.
\<close>

theorem validate_category_raises:
  "validate_category (map_of [(''food'', [''groceries''])]) (Some ''xyz'') (Some []) = Inl KeyError
   \<and> validate_category (map_of [(''misc'', [])]) (Some ''xyz'') (Some []) = Inl IndexError"
  by (simp add: validate_category_def or_empty_def strip_def lower_def lower_char_def
      isspace_def fallback_def)

subsection \<open>Rejected writes\<close>

text \<open>
  C4. For every amount \<open>a \<le> 0\<close>, \<open>add_expense\<close> and \<open>add_saving\<close> raise \<^verbatim>\<open>ValueError\<close> (the
  validation error of the specification) and leave the whole server state as it was: no
  table of any tenant changes, and no tenant database is even created.
\<close>

theorem nonpositive_amount_rejected:
  "amount \<le> 0 \<Longrightarrow>
     add_expense categories srv date amount category subcategory note user_id
       = (Inl ValueError, srv)
     \<and> add_saving sources srv date amount source note user_id = (Inl ValueError, srv)"
  by (simp add: add_expense_def add_saving_def)

theorem nonpositive_amount_rejected_witness:
  "(-5::real) \<le> 0
   \<and> add_expense example_categories initial_server ''2024-03-01'' (-5) ''food'' ''groceries''
         ''lunch'' None
       = (Inl ValueError, initial_server)
   \<and> add_saving example_sources initial_server ''2024-03-01'' (-5) ''salary'' ''lunch'' None
       = (Inl ValueError, initial_server)"
  using nonpositive_amount_rejected [of "-5" example_categories initial_server "''2024-03-01''"
     "''food''" "''groceries''" "''lunch''" None example_sources "''salary''"]
  by simp

text \<open>
  C5, as the code has it. No write tool looks at the date: whenever the amount is positive
  and the normalizer returns, \<open>add_expense\<close> and \<open>add_saving\<close> succeed for every date string,
  malformed ones included, and the row they store bears that string unchanged. (A
  malformed date is only rejected where a date is parsed, in the goal insights.)
\<close>

theorem date_stored_verbatim:
  "(0 < amount \<and> validate_category categories (Some category) (Some subcategory) = Inr (c, s)
      \<longrightarrow> (\<exists>i srv'. add_expense categories srv date amount category subcategory note user_id
                 = (Inr (Ok_expense_added i c s), srv')
             \<and> (\<exists>r \<in> set (expenses (connect srv' (resolve_user_id srv user_id))).
                   e_id r = i \<and> e_date r = date)))
   \<and> (0 < amount \<and> validate_saving_source sources (Some source) = Inr src
      \<longrightarrow> (\<exists>i srv'. add_saving sources srv date amount source note user_id
                 = (Inr (Ok_saving_added i), srv')
             \<and> (\<exists>r \<in> set (savings (connect srv' (resolve_user_id srv user_id))).
                   s_id r = i \<and> s_date r = date)))"
  by (simp add: add_expense_def add_saving_def Let_def)

theorem date_stored_verbatim_witness:
  "(0::real) < 10
   \<and> validate_category example_categories (Some ''food'') (Some ''groceries'')
       = Inr (''food'', ''groceries'')
   \<and> validate_saving_source example_sources (Some ''salary'') = Inr ''salary''
   \<and> (\<exists>i srv'. add_expense example_categories initial_server ''31/12/2024'' 10 ''food''
          ''groceries'' ''lunch'' None = (Inr (Ok_expense_added i ''food'' ''groceries''), srv')
        \<and> (\<exists>r \<in> set (expenses (connect srv' (resolve_user_id initial_server None))).
               e_id r = i \<and> e_date r = ''31/12/2024''))
   \<and> (\<exists>i srv'. add_saving example_sources initial_server ''31/12/2024'' 10 ''salary''
          ''lunch'' None = (Inr (Ok_saving_added i), srv')
        \<and> (\<exists>r \<in> set (savings (connect srv' (resolve_user_id initial_server None))).
               s_id r = i \<and> s_date r = ''31/12/2024''))"
proof -
  have v: "validate_category example_categories (Some ''food'') (Some ''groceries'')
             = Inr (''food'', ''groceries'')"
    by (simp add: run_defs)
  have w: "validate_saving_source example_sources (Some ''salary'') = Inr ''salary''"
    by (simp add: run_defs)
  show ?thesis
    using v w date_stored_verbatim [of 10 example_categories "''food''" "''groceries''"
        "''food''" "''groceries''" initial_server "''31/12/2024''" "''lunch''" None
        example_sources "''salary''" "''salary''"]
    by simp
qed

text \<open>
  The date \<^verbatim>\<open>31/12/2024\<close> does not parse as \<^verbatim>\<open>%Y-%m-%d\<close>, and both tools store it.
\<close>

theorem malformed_date_persisted:
  "strptime ''31/12/2024'' = Inl ValueError
   \<and> fst (add_expense example_categories initial_server ''31/12/2024'' 10 ''food'' ''groceries''
        ''lunch'' None) = Inr (Ok_expense_added 1 ''food'' ''groceries'')
   \<and> expenses (connect (snd (add_expense example_categories initial_server ''31/12/2024'' 10
        ''food'' ''groceries'' ''lunch'' None)) ''default_user'')
      = [\<lparr>e_id = 1, e_date = ''31/12/2024'', e_amount = 10, e_category = ''food'',
           e_subcategory = ''groceries'', e_note = ''lunch''\<rparr>]
   \<and> fst (add_saving example_sources initial_server ''31/12/2024'' 10 ''salary''
        ''lunch'' None) = Inr (Ok_saving_added 1)
   \<and> savings (connect (snd (add_saving example_sources initial_server ''31/12/2024'' 10
        ''salary'' ''lunch'' None)) ''default_user'')
      = [\<lparr>s_id = 1, s_date = ''31/12/2024'', s_amount = 10, s_source = ''salary'',
           s_note = ''lunch''\<rparr>]"
  by (simp add: run_defs digit_val_def)

subsection \<open>The current user\<close>




subsection \<open>Budgets\<close>

lemma set_budget_ok:
  assumes "0 < l" and "validate_category cs (Some c) None = Inr (k, sub)"
  shows "set_budget cs srv c l user_id
           = (Inr (Ok_budget_set k l),
              commit (init_db srv (resolve_user_id srv user_id)) (resolve_user_id srv user_id)
                (upsert_budget (connect srv (resolve_user_id srv user_id)) k l))"
  using assms by (simp add: set_budget_def Let_def)

lemma set_budget_cases:
  "snd (set_budget cs srv c l user_id) = srv
   \<or> (\<exists>k. snd (set_budget cs srv c l user_id)
           = commit (init_db srv (resolve_user_id srv user_id)) (resolve_user_id srv user_id)
               (upsert_budget (connect srv (resolve_user_id srv user_id)) k l))"
  by (auto simp: set_budget_def Let_def split: sum.splits)

lemma b_category_relimit:
  "b_category \<circ> (\<lambda>b. if b_category b = k then b\<lparr>b_monthly_limit := l\<rparr> else b) = b_category"
  by (auto simp: fun_eq_iff)

lemma upsert_budget_distinct:
  assumes "distinct (map b_category (budgets d))"
  shows "distinct (map b_category (budgets (upsert_budget d k l)))"
proof (cases "\<exists>b \<in> set (budgets d). b_category b = k")
  case True
  with assms show ?thesis
    by (simp add: upsert_budget_def b_category_relimit)
next
  case False
  with assms show ?thesis
    by (auto simp: upsert_budget_def Let_def)
qed

lemma filter_relimit_none:
  "\<forall>b \<in> set xs. b_category b \<noteq> k \<Longrightarrow>
     filter (\<lambda>b. b_category b = k)
       (map (\<lambda>b. if b_category b = k then b\<lparr>b_monthly_limit := l\<rparr> else b) xs) = []"
  by (induction xs) auto

lemma filter_updated_row:
  assumes "distinct (map b_category bs)" and "\<exists>b \<in> set bs. b_category b = k"
  shows "\<exists>b. filter (\<lambda>b. b_category b = k)
                (map (\<lambda>b. if b_category b = k then b\<lparr>b_monthly_limit := l\<rparr> else b) bs) = [b]
             \<and> b_category b = k \<and> b_monthly_limit b = l"
  using assms
proof (induction bs)
  case Nil
  then show ?case by simp
next
  case (Cons x xs)
  show ?case
  proof (cases "b_category x = k")
    case True
    with Cons.prems have "\<forall>b \<in> set xs. b_category b \<noteq> k"
      by (metis distinct.simps(2) imageI list.simps(9) set_map)
    then show ?thesis
      using True by (simp add: filter_relimit_none)
  next
    case False
    with Cons show ?thesis by auto
  qed
qed

lemma upsert_budget_one_row:
  assumes "distinct (map b_category (budgets d))"
  shows "\<exists>b. filter (\<lambda>b. b_category b = k) (budgets (upsert_budget d k l)) = [b]
             \<and> b_category b = k \<and> b_monthly_limit b = l"
proof (cases "\<exists>b \<in> set (budgets d). b_category b = k")
  case True
  with filter_updated_row [OF assms, of k l] show ?thesis
    by (simp add: upsert_budget_def)
next
  case False
  then have "filter (\<lambda>b. b_category b = k) (budgets d) = []"
    by (simp add: filter_empty_conv)
  with False show ?thesis
    by (simp add: upsert_budget_def Let_def)
qed

lemma set_budget_distinct:
  assumes "\<forall>u. distinct (map b_category (budgets (connect srv u)))"
  shows "\<forall>u. distinct (map b_category (budgets (connect (snd (set_budget cs srv c l user_id)) u)))"
proof
  fix u
  from set_budget_cases [of cs srv c l user_id]
  show "distinct (map b_category (budgets (connect (snd (set_budget cs srv c l user_id)) u)))"
  proof
    assume "snd (set_budget cs srv c l user_id) = srv"
    with assms show ?thesis by simp
  next
    assume "\<exists>k. snd (set_budget cs srv c l user_id)
           = commit (init_db srv (resolve_user_id srv user_id)) (resolve_user_id srv user_id)
               (upsert_budget (connect srv (resolve_user_id srv user_id)) k l)"
    then obtain k where k: "snd (set_budget cs srv c l user_id)
           = commit (init_db srv (resolve_user_id srv user_id)) (resolve_user_id srv user_id)
               (upsert_budget (connect srv (resolve_user_id srv user_id)) k l)" ..
    show ?thesis
    proof (cases "u = resolve_user_id srv user_id")
      case True
      with assms show ?thesis by (simp add: k upsert_budget_distinct)
    next
      case False
      with assms show ?thesis by (simp add: k)
    qed
  qed
qed

lemma set_budgets_distinct:
  "\<forall>u. distinct (map b_category (budgets (connect srv u))) \<Longrightarrow>
     \<forall>u. distinct (map b_category (budgets (connect (set_budgets cs srv calls) u)))"
proof (induction calls arbitrary: srv)
  case Nil
  then show ?case by simp
next
  case (Cons call calls)
  obtain c l user_id where call: "call = (c, l, user_id)"
    by (cases call)
  from Cons.prems have "\<forall>u. distinct (map b_category
      (budgets (connect (snd (set_budget cs srv c l user_id)) u)))"
    by (rule set_budget_distinct)
  then show ?case
    unfolding call set_budgets.simps by (rule Cons.IH)
qed

lemma set_budget_pointer:
  "CURRENT_USER_ID (snd (set_budget cs srv c l user_id)) = CURRENT_USER_ID srv"
  using set_budget_untouched [of srv cs c l user_id] by (simp add: untouched_def)

text \<open>
  C6. The budgets table is \<^verbatim>\<open>UNIQUE\<close> on \<^verbatim>\<open>category\<close>; from a state where every tenant's
  budgets have distinct categories, any sequence of \<open>set_budget\<close> calls (failing ones
  included) leaves every tenant's budgets with distinct categories. And \<open>set_budget\<close> with
  limit \<open>l1\<close>, then \<open>set_budget\<close> of the same category with limit \<open>l2\<close>, leaves exactly one
  row for the normalized category, whose limit is \<open>l2\<close>.
\<close>

theorem set_budget_upsert:
  assumes "\<forall>u. distinct (map b_category (budgets (connect srv u)))"
  shows "(\<forall>u. distinct (map b_category (budgets (connect (set_budgets categories srv calls) u))))
     \<and> (0 < l1 \<and> 0 < l2 \<and> validate_category categories (Some category) None = Inr (k, sub)
        \<longrightarrow> (\<exists>b. filter (\<lambda>b. b_category b = k)
                    (budgets (connect
                       (set_budgets categories srv
                          [(category, l1, user_id), (category, l2, user_id)])
                       (resolve_user_id srv user_id))) = [b]
                  \<and> b_category b = k \<and> b_monthly_limit b = l2))"
proof (intro conjI impI)
  show "\<forall>u. distinct (map b_category (budgets (connect (set_budgets categories srv calls) u)))"
    using assms by (rule set_budgets_distinct)
next
  assume a: "0 < l1 \<and> 0 < l2 \<and> validate_category categories (Some category) None = Inr (k, sub)"
  define uid where "uid = resolve_user_id srv user_id"
  define srv1 where "srv1 = snd (set_budget categories srv category l1 user_id)"
  have d1: "distinct (map b_category (budgets (connect srv1 uid)))"
    using set_budget_distinct [OF assms, of categories category l1 user_id]
    unfolding srv1_def by blast
  have "CURRENT_USER_ID srv1 = CURRENT_USER_ID srv"
    unfolding srv1_def by (rule set_budget_pointer)
  then have r1: "resolve_user_id srv1 user_id = uid"
    unfolding uid_def by (rule resolve_user_id_pointer)
  have "snd (set_budget categories srv1 category l2 user_id)
          = commit (init_db srv1 uid) uid (upsert_budget (connect srv1 uid) k l2)"
    using a set_budget_ok [of l2 categories category k sub srv1 user_id]
    by (simp add: r1)
  then have "budgets (connect (set_budgets categories srv
       [(category, l1, user_id), (category, l2, user_id)]) uid)
     = budgets (upsert_budget (connect srv1 uid) k l2)"
    by (simp add: srv1_def)
  with upsert_budget_one_row [OF d1, of k l2]
  show "\<exists>b. filter (\<lambda>b. b_category b = k)
                    (budgets (connect
                       (set_budgets categories srv
                          [(category, l1, user_id), (category, l2, user_id)])
                       (resolve_user_id srv user_id))) = [b]
                  \<and> b_category b = k \<and> b_monthly_limit b = l2"
    by (simp add: uid_def)
qed

theorem set_budget_upsert_witness:
  "(\<forall>u. distinct (map b_category (budgets (connect initial_server u))))
   \<and> (0::real) < 100 \<and> (0::real) < 150
   \<and> validate_category example_categories (Some ''Food'') None = Inr (''food'', ''other'')
   \<and> budgets (connect (set_budgets example_categories initial_server
         [(''Food'', 100, None), (''Food'', 150, None)]) ''default_user'')
       = [\<lparr>b_id = 1, b_category = ''food'', b_monthly_limit = 150\<rparr>]"
proof -
  have i: "\<forall>u. distinct (map b_category (budgets (connect initial_server u)))"
    by (simp add: connect_def initial_server_def empty_db_def)
  have v: "validate_category example_categories (Some ''Food'') None = Inr (''food'', ''other'')"
    by (simp add: run_defs)
  have e: "budgets (connect (set_budgets example_categories initial_server
         [(''Food'', 100, None), (''Food'', 150, None)]) ''default_user'')
       = [\<lparr>b_id = 1, b_category = ''food'', b_monthly_limit = 150\<rparr>]"
    by (simp add: run_defs)
  show ?thesis
    using i v e set_budget_upsert [OF i, of example_categories "[]" 100 150 "''Food''" "''food''"
        "''other''" None]
    by simp
qed









subsection \<open>Expenses\<close>

lemma fold_max_ge: "(a::int) \<le> fold max ids a \<and> (\<forall>x \<in> set ids. x \<le> fold max ids a)"
proof (induction ids arbitrary: a)
  case Nil
  then show ?case by simp
next
  case (Cons i ids)
  from Cons.IH [of "max i a"] show ?case by auto
qed

lemma next_rowid_fresh: "x \<in> set ids \<Longrightarrow> x < next_rowid seq ids"
  using fold_max_ge [of 0 ids] by (auto simp: next_rowid_def)

lemma add_expense_ok:
  assumes "0 < amount"
      and "validate_category categories (Some category) (Some subcategory) = Inr (c, s)"
  shows "add_expense categories srv date amount category subcategory note user_id
     = (Inr (Ok_expense_added
               (next_rowid (expenses_seq (connect srv (resolve_user_id srv user_id)))
                  (map e_id (expenses (connect srv (resolve_user_id srv user_id))))) c s),
        commit (init_db srv (resolve_user_id srv user_id)) (resolve_user_id srv user_id)
          ((connect srv (resolve_user_id srv user_id))
             \<lparr>expenses := expenses (connect srv (resolve_user_id srv user_id)) @
                 [\<lparr>e_id = next_rowid (expenses_seq (connect srv (resolve_user_id srv user_id)))
                            (map e_id (expenses (connect srv (resolve_user_id srv user_id)))),
                   e_date = date, e_amount = amount, e_category = c, e_subcategory = s,
                   e_note = note\<rparr>],
               expenses_seq := next_rowid (expenses_seq (connect srv (resolve_user_id srv user_id)))
                  (map e_id (expenses (connect srv (resolve_user_id srv user_id))))\<rparr>))"
  using assms by (simp add: add_expense_def Let_def)

lemma filter_rev_sort_key:
  "filter P (rev (sort_key f xs)) = rev (sort_key f (filter P xs))"
  by (simp add: rev_filter [symmetric] filter_sort)

lemma list_expenses_rows:
  "fst (list_expenses srv user_id)
     = rev (sort_key e_date (expenses (connect srv (resolve_user_id srv user_id))))"
  by (simp add: list_expenses_def Let_def)

text \<open>
  C7. For a positive amount and arguments the normalizer accepts, \<open>add_expense\<close> returns a
  new id \<open>i\<close> that no expense listed before bears; \<open>list_expenses\<close> on the same tenant then
  holds exactly one record with that id, made of the normalized category and subcategory
  and of the date, amount and note as given; the other records listed are those listed
  before.
\<close>

theorem add_then_list:
  assumes "0 < amount"
      and "validate_category categories (Some category) (Some subcategory) = Inr (c, s)"
  shows "\<exists>i srv'.
           add_expense categories srv date amount category subcategory note user_id
             = (Inr (Ok_expense_added i c s), srv')
           \<and> i \<notin> e_id ` set (fst (list_expenses srv user_id))
           \<and> filter (\<lambda>r. e_id r = i) (fst (list_expenses srv' user_id))
               = [\<lparr>e_id = i, e_date = date, e_amount = amount, e_category = c,
                    e_subcategory = s, e_note = note\<rparr>]
           \<and> filter (\<lambda>r. e_id r \<noteq> i) (fst (list_expenses srv' user_id))
               = fst (list_expenses srv user_id)"
proof -
  define uid where "uid = resolve_user_id srv user_id"
  define old where "old = expenses (connect srv uid)"
  define i where "i = next_rowid (expenses_seq (connect srv uid)) (map e_id old)"
  define row where "row = \<lparr>e_id = i, e_date = date, e_amount = amount, e_category = c,
                    e_subcategory = s, e_note = note\<rparr>"
  define srv' where "srv' = commit (init_db srv uid) uid
      ((connect srv uid)\<lparr>expenses := old @ [row], expenses_seq := i\<rparr>)"
  have add: "add_expense categories srv date amount category subcategory note user_id
             = (Inr (Ok_expense_added i c s), srv')"
    using add_expense_ok [OF assms, of srv date "note" user_id]
    by (simp add: srv'_def row_def i_def old_def uid_def)
  have fresh: "\<forall>r \<in> set old. e_id r \<noteq> i"
    using next_rowid_fresh [of _ "map e_id old" "expenses_seq (connect srv uid)"]
    unfolding i_def by fastforce
  have uid': "resolve_user_id srv' user_id = uid"
    unfolding uid_def by (rule resolve_user_id_pointer) (simp add: srv'_def)
  have before: "fst (list_expenses srv user_id) = rev (sort_key e_date old)"
    by (simp add: list_expenses_rows old_def uid_def)
  have "expenses (connect srv' uid) = old @ [row]"
    by (simp add: srv'_def)
  then have after: "fst (list_expenses srv' user_id) = rev (sort_key e_date (old @ [row]))"
    by (simp add: list_expenses_rows uid')
  have f1: "filter (\<lambda>r. e_id r = i) (old @ [row]) = [row]"
    using fresh by (simp add: row_def filter_empty_conv)
  have f2: "filter (\<lambda>r. e_id r \<noteq> i) (old @ [row]) = old"
    using fresh by (simp add: row_def filter_id_conv)
  have one: "filter (\<lambda>r. e_id r = i) (fst (list_expenses srv' user_id)) = [row]"
    unfolding after filter_rev_sort_key f1 by simp
  have rest: "filter (\<lambda>r. e_id r \<noteq> i) (fst (list_expenses srv' user_id))
               = fst (list_expenses srv user_id)"
    unfolding after before filter_rev_sort_key f2 by simp
  have notin: "i \<notin> e_id ` set (fst (list_expenses srv user_id))"
    unfolding before using fresh by auto
  from add notin one rest show ?thesis
    unfolding row_def by blast
qed

theorem add_then_list_witness:
  "(0::real) < 12.5
   \<and> validate_category example_categories (Some ''Food'') (Some ''snacks'') = Inr (''food'', ''other'')
   \<and> add_expense example_categories example_ledger ''2024-03-05'' 12.5 ''Food'' ''snacks'' ''tea'' None
       = (Inr (Ok_expense_added 2 ''food'' ''other''),
          snd (add_expense example_categories example_ledger ''2024-03-05'' 12.5 ''Food'' ''snacks''
                 ''tea'' None))
   \<and> e_id ` set (fst (list_expenses example_ledger None)) = {1}
   \<and> fst (list_expenses (snd (add_expense example_categories example_ledger ''2024-03-05'' 12.5
            ''Food'' ''snacks'' ''tea'' None)) None)
       = [\<lparr>e_id = 2, e_date = ''2024-03-05'', e_amount = 12.5, e_category = ''food'',
            e_subcategory = ''other'', e_note = ''tea''\<rparr>,
          \<lparr>e_id = 1, e_date = ''2024-03-01'', e_amount = 40, e_category = ''transport'',
            e_subcategory = ''repairs_service'', e_note = ''tyres''\<rparr>]"
proof -
  have a: "(0::real) < 12.5"
    by simp
  have v: "validate_category example_categories (Some ''Food'') (Some ''snacks'')
             = Inr (''food'', ''other'')"
    by (simp add: run_defs)
  have r: "add_expense example_categories example_ledger ''2024-03-05'' 12.5 ''Food'' ''snacks'' ''tea'' None
       = (Inr (Ok_expense_added 2 ''food'' ''other''),
          snd (add_expense example_categories example_ledger ''2024-03-05'' 12.5 ''Food'' ''snacks''
                 ''tea'' None))"
    by (simp add: example_ledger_def run_defs)
  have b: "e_id ` set (fst (list_expenses example_ledger None)) = {1}"
    by (simp add: example_ledger_def run_defs)
  have l: "fst (list_expenses (snd (add_expense example_categories example_ledger ''2024-03-05'' 12.5
            ''Food'' ''snacks'' ''tea'' None)) None)
       = [\<lparr>e_id = 2, e_date = ''2024-03-05'', e_amount = 12.5, e_category = ''food'',
            e_subcategory = ''other'', e_note = ''tea''\<rparr>,
          \<lparr>e_id = 1, e_date = ''2024-03-01'', e_amount = 40, e_category = ''transport'',
            e_subcategory = ''repairs_service'', e_note = ''tyres''\<rparr>]"
    by (simp add: example_ledger_def run_defs)
  from add_then_list [OF a v, of example_ledger "''2024-03-05''" "''tea''" None] a v r b l
  show ?thesis
    by blast
qed

lemma validate_category_default:
  "validate_category cs c None = Inr (k, s) \<Longrightarrow> \<exists>subs. cs k = Some subs \<and> fallback subs = Inr s"
  by (auto simp: validate_category_def Let_def or_empty_def strip_def lower_def
      split: option.splits sum.splits if_splits)

lemma update_expense_with_category:
  "\<not> (case amount of None \<Rightarrow> False | Some a \<Rightarrow> a \<le> 0) \<Longrightarrow>
   validate_category categories (Some category) subcategory = Inr (c, s) \<Longrightarrow>
   update_expense categories srv expense_id date amount (Some category) subcategory note user_id
     = execute_update (init_db srv (resolve_user_id srv user_id)) (resolve_user_id srv user_id)
         expense_id
         \<lparr>u_date = date, u_amount = amount, u_category = Some c, u_subcategory = Some s,
          u_note = note\<rparr>"
  by (simp add: update_expense_def Let_def)

lemma execute_update_found:
  "\<exists>r \<in> set (expenses (connect srv uid)). e_id r = expense_id \<Longrightarrow>
   u_category u \<noteq> None \<Longrightarrow>
   execute_update srv uid expense_id u
     = (Inr (Ok_updated expense_id),
        commit srv uid
          ((connect srv uid)\<lparr>expenses :=
             map (\<lambda>r. if e_id r = expense_id then apply_update u r else r)
               (expenses (connect srv uid))\<rparr>))"
  by (simp add: execute_update_def Let_def)

lemma apply_update_fields:
  "e_id (apply_update u r) = e_id r"
  "e_category (apply_update u r) = (case u_category u of None \<Rightarrow> e_category r | Some v \<Rightarrow> v)"
  "e_subcategory (apply_update u r)
     = (case u_subcategory u of None \<Rightarrow> e_subcategory r | Some v \<Rightarrow> v)"
  by (simp_all add: apply_update_def)

lemma updated_rows:
  "u_category u = Some c \<Longrightarrow> u_subcategory u = Some s \<Longrightarrow>
     \<forall>r \<in> set (map (\<lambda>r. if e_id r = i then apply_update u r else r) xs).
        e_id r = i \<longrightarrow> e_category r = c \<and> e_subcategory r = s"
  by (induction xs) (simp_all add: apply_update_fields)

text \<open>
  C8, as the code has it. \<open>update_expense\<close> with a new category, on an existing expense,
  stores the pair the normalizer returns for the new category and the caller's
  \<^verbatim>\<open>subcategory\<close> argument. Without that argument the normalizer is given no subcategory,
  so the stored subcategory is the fallback of the new category (\<^verbatim>\<open>other\<close> when listed, else
  its first subcategory), whatever subcategory the expense had.
\<close>

theorem update_expense_category:
  assumes "\<exists>r \<in> set (expenses (connect srv (resolve_user_id srv user_id))). e_id r = expense_id"
      and "\<forall>a. amount = Some a \<longrightarrow> 0 < a"
      and "validate_category categories (Some category) subcategory = Inr (c, s)"
  shows "fst (update_expense categories srv expense_id date amount (Some category) subcategory
                note user_id) = Inr (Ok_updated expense_id)
     \<and> expenses (connect (snd (update_expense categories srv expense_id date amount
                (Some category) subcategory note user_id)) (resolve_user_id srv user_id))
         = map (\<lambda>r. if e_id r = expense_id
                     then apply_update \<lparr>u_date = date, u_amount = amount, u_category = Some c,
                            u_subcategory = Some s, u_note = note\<rparr> r
                     else r)
             (expenses (connect srv (resolve_user_id srv user_id)))
     \<and> (\<forall>r \<in> set (expenses (connect (snd (update_expense categories srv expense_id date amount
                (Some category) subcategory note user_id)) (resolve_user_id srv user_id))).
           e_id r = expense_id \<longrightarrow> e_category r = c \<and> e_subcategory r = s)
     \<and> (subcategory = None \<longrightarrow> (\<exists>subs. categories c = Some subs \<and> fallback subs = Inr s))"
proof -
  define uid where "uid = resolve_user_id srv user_id"
  define u where "u = \<lparr>u_date = date, u_amount = amount, u_category = Some c,
                            u_subcategory = Some s, u_note = note\<rparr>"
  define new where "new = map (\<lambda>r. if e_id r = expense_id then apply_update u r else r)
             (expenses (connect srv uid))"
  have uc: "u_category u \<noteq> None" "u_category u = Some c" "u_subcategory u = Some s"
    by (simp_all add: u_def)
  from assms(2) have amt: "\<not> (case amount of None \<Rightarrow> False | Some a \<Rightarrow> a \<le> 0)"
    by (cases amount) auto
  have ex: "\<exists>r \<in> set (expenses (connect (init_db srv uid) uid)). e_id r = expense_id"
    using assms(1) by (simp add: uid_def)
  have run: "update_expense categories srv expense_id date amount (Some category)
       subcategory note user_id
      = (Inr (Ok_updated expense_id),
         commit (init_db srv uid) uid ((connect (init_db srv uid) uid)\<lparr>expenses := new\<rparr>))"
    unfolding update_expense_with_category [OF amt assms(3)] uid_def [symmetric] u_def [symmetric]
      execute_update_found [OF ex uc(1)] new_def
    by (simp only: connect_init_db)
  have cat: "\<forall>r \<in> set new. e_id r = expense_id \<longrightarrow> e_category r = c \<and> e_subcategory r = s"
    unfolding new_def using uc(2,3) by (rule updated_rows)
  have dflt: "subcategory = None \<longrightarrow> (\<exists>subs. categories c = Some subs \<and> fallback subs = Inr s)"
    using assms(3) validate_category_default by blast
  have tab: "expenses (connect (snd (update_expense categories srv expense_id date amount
                (Some category) subcategory note user_id)) uid) = new"
    unfolding run by simp
  have res: "fst (update_expense categories srv expense_id date amount (Some category)
       subcategory note user_id) = Inr (Ok_updated expense_id)"
    unfolding run by simp
  show ?thesis
    unfolding uid_def [symmetric] u_def [symmetric] new_def [symmetric] tab
    using res cat dflt by blast
qed

theorem update_expense_category_witness:
  "expenses (connect example_ledger (resolve_user_id example_ledger None))
     = [\<lparr>e_id = 1, e_date = ''2024-03-01'', e_amount = 40, e_category = ''transport'',
          e_subcategory = ''repairs_service'', e_note = ''tyres''\<rparr>]
   \<and> validate_category example_categories (Some ''housing'') None = Inr (''housing'', ''other'')
   \<and> fst (update_expense example_categories example_ledger 1 None None (Some ''housing'') None
            None None) = Inr (Ok_updated 1)
   \<and> expenses (connect (snd (update_expense example_categories example_ledger 1 None None
            (Some ''housing'') None None None)) (resolve_user_id example_ledger None))
       = [\<lparr>e_id = 1, e_date = ''2024-03-01'', e_amount = 40, e_category = ''housing'',
            e_subcategory = ''other'', e_note = ''tyres''\<rparr>]
   \<and> fallback [''rent'', ''repairs_service'', ''other''] = Inr ''other''"
proof -
  have l: "expenses (connect example_ledger (resolve_user_id example_ledger None))
     = [\<lparr>e_id = 1, e_date = ''2024-03-01'', e_amount = 40, e_category = ''transport'',
          e_subcategory = ''repairs_service'', e_note = ''tyres''\<rparr>]"
    by (simp add: example_ledger_def run_defs)
  then have a: "\<exists>r \<in> set (expenses (connect example_ledger (resolve_user_id example_ledger None))).
             e_id r = 1"
    by simp
  have b: "\<forall>a::real. None = Some a \<longrightarrow> 0 < a"
    by simp
  have c: "validate_category example_categories (Some ''housing'') None
             = Inr (''housing'', ''other'')"
    by (simp add: run_defs)
  have f: "fallback [''rent'', ''repairs_service'', ''other''] = Inr ''other''"
    by (simp add: fallback_def)
  from update_expense_category [OF a b c, of None None] l c f show ?thesis
    by (simp add: apply_update_def)
qed

text \<open>
  An expense filed under \<^verbatim>\<open>transport/repairs_service\<close> and moved to \<^verbatim>\<open>housing\<close> without
  a subcategory ends as \<^verbatim>\<open>housing/other\<close>, although \<^verbatim>\<open>repairs_service\<close> is a subcategory
  of \<^verbatim>\<open>housing\<close> and normalizes to itself there.
\<close>

theorem update_expense_drops_subcategory:
  "expenses (connect example_ledger ''default_user'')
     = [\<lparr>e_id = 1, e_date = ''2024-03-01'', e_amount = 40, e_category = ''transport'',
          e_subcategory = ''repairs_service'', e_note = ''tyres''\<rparr>]
   \<and> validate_category example_categories (Some ''housing'') (Some ''repairs_service'')
       = Inr (''housing'', ''repairs_service'')
   \<and> fst (update_expense example_categories example_ledger 1 None None (Some ''housing'') None
            None None) = Inr (Ok_updated 1)
   \<and> expenses (connect (snd (update_expense example_categories example_ledger 1 None None
            (Some ''housing'') None None None)) ''default_user'')
       = [\<lparr>e_id = 1, e_date = ''2024-03-01'', e_amount = 40, e_category = ''housing'',
            e_subcategory = ''other'', e_note = ''tyres''\<rparr>]
   \<and> ''other'' \<noteq> ''repairs_service''"
  by (simp add: example_ledger_def run_defs)

subsection \<open>Goal pacing\<close>






subsection \<open>Budget status\<close>




lemma length_pad_digits [simp]: "length (pad_digits k n) = k"
  by (induction k arbitrary: n) auto
























end
